theory Spec2Isabelle
  imports Complex_Main "HOL-Library.AList"
begin

section \<open>Scoped measurements of the telemetry samples\<close>

text \<open>
  The two batch samples, \<^verbatim>\<open>batch-otel-metrics.py\<close> and \<^verbatim>\<open>batch-otel-traces.py\<close>, each
  define one context manager: \<^verbatim>\<open>HistrogramTimer\<close> writes to a histogram and a counter,
  \<^verbatim>\<open>SpanTime\<close> creates a span. Both read the clock and draw one random number in
  \<^verbatim>\<open>__exit__\<close>. The model threads a world through every call: the clock, and what the
  OpenTelemetry instruments, the tracer and the root logger have received so far. The
  random draw is an argument of the release. Python floats are read as reals, so rounding
  is not part of the model, and a telemetry call takes no time on the model's clock.
\<close>

subsection \<open>Data\<close>

datatype attr_value = AStr string | AInt int | AFloat real | ABool bool

text \<open>A Python dict of attributes, in insertion order, keys unique.\<close>

type_synonym attributes = "(string \<times> attr_value) list"

datatype instrument_kind = Counter | Histogram

record instrument =
  inst_name :: string
  inst_kind :: instrument_kind
  inst_unit :: string
  inst_description :: string

text \<open>
  Python exceptions: \<open>Exception\<close> and \<open>AttributeError\<close> are caught by
  \<^verbatim>\<open>except Exception\<close>; \<open>BaseException\<close> stands for the ones that are not
  (\<^verbatim>\<open>KeyboardInterrupt\<close>, \<^verbatim>\<open>SystemExit\<close>, a cancellation).
\<close>

datatype exn = Exception string | AttributeError string | BaseException string

fun is_Exception :: "exn \<Rightarrow> bool" where
  "is_Exception (Exception _) = True"
| "is_Exception (AttributeError _) = True"
| "is_Exception (BaseException _) = False"

datatype pyval = PyNone | PyBool bool

fun truthy :: "pyval \<Rightarrow> bool" where
  "truthy PyNone = False"
| "truthy (PyBool b) = b"

datatype status_code = StatusUNSET | StatusOK | StatusERROR

datatype log_level = LogDEBUG | LogINFO | LogWARNING | LogERROR

record span =
  span_name :: string
  span_start :: real
  span_end :: "real option"
  span_status :: status_code
  span_attributes :: attributes
  span_exceptions :: "exn list"

record world =
  clock :: real
  histogram_points :: "(instrument \<times> real \<times> attributes) list"
  counter_points :: "(instrument \<times> int \<times> attributes) list"
  log_records :: "(log_level \<times> string) list"
  finished_spans :: "span list"

type_synonym 'a result = "(exn + 'a) \<times> world"

subsection \<open>The library calls the samples make\<close>

definition record_histogram :: "instrument \<Rightarrow> real \<Rightarrow> attributes \<Rightarrow> world \<Rightarrow> world" where
  "record_histogram h v a w = w\<lparr>histogram_points := histogram_points w @ [(h, v, a)]\<rparr>"

definition add_counter :: "instrument \<Rightarrow> int \<Rightarrow> attributes \<Rightarrow> world \<Rightarrow> world" where
  "add_counter c d a w = w\<lparr>counter_points := counter_points w @ [(c, d, a)]\<rparr>"

definition logging_error :: "string \<Rightarrow> world \<Rightarrow> world" where
  "logging_error msg w = w\<lparr>log_records := log_records w @ [(LogERROR, msg)]\<rparr>"

definition start_as_current_span :: "string \<Rightarrow> world \<Rightarrow> span" where
  "start_as_current_span n w =
     \<lparr>span_name = n, span_start = clock w, span_end = None, span_status = StatusUNSET,
      span_attributes = [], span_exceptions = []\<rparr>"

definition set_attribute :: "string \<Rightarrow> attr_value \<Rightarrow> span \<Rightarrow> span" where
  "set_attribute k v s = s\<lparr>span_attributes := AList.update k v (span_attributes s)\<rparr>"

definition set_status :: "status_code \<Rightarrow> span \<Rightarrow> span" where
  "set_status c s = s\<lparr>span_status := c\<rparr>"

definition record_exception :: "exn \<Rightarrow> span \<Rightarrow> span" where
  "record_exception e s = s\<lparr>span_exceptions := span_exceptions s @ [e]\<rparr>"

definition end_span :: "span \<Rightarrow> world \<Rightarrow> world" where
  "end_span s w = w\<lparr>finished_spans := finished_spans w @ [s\<lparr>span_end := Some (clock w)\<rparr>]\<rparr>"

definition sleep :: "real \<Rightarrow> world \<Rightarrow> unit result" where
  "sleep d w = (Inr (), w\<lparr>clock := clock w + d\<rparr>)"

text \<open>\<^verbatim>\<open>attributes or {}\<close>: \<^verbatim>\<open>None\<close> and the empty dict are both falsy.\<close>

definition or_empty :: "attributes option \<Rightarrow> attributes" where
  "or_empty a = (case a of None \<Rightarrow> [] | Some d \<Rightarrow> if d = [] then [] else d)"

text \<open>
  \<^verbatim>\<open>if random.random() < 0.05: raise Exception('simulated error')\<close>, the body of the
  \<^verbatim>\<open>try\<close> in both releases.
\<close>

definition simulated_error :: "real \<Rightarrow> exn + unit" where
  "simulated_error rnd = (if rnd < 5 / 100 then Inl (Exception ''simulated error'') else Inr ())"

subsection \<open>Module level of \<^verbatim>\<open>batch-otel-metrics.py\<close>\<close>

definition duration_histogram :: instrument where
  "duration_histogram =
     \<lparr>inst_name = ''duration'', inst_kind = Histogram, inst_unit = ''ms'',
      inst_description = ''Duration of process''\<rparr>"

definition error_counter :: instrument where
  "error_counter =
     \<lparr>inst_name = ''error_count'', inst_kind = Counter, inst_unit = ''1'',
      inst_description = ''Number of errors''\<rparr>"

subsection \<open>The two context managers\<close>

text \<open>
  The fields both classes have, \<^verbatim>\<open>self.attributes\<close> and \<^verbatim>\<open>self.start_time\<close>; the
  second exists only once \<^verbatim>\<open>__enter__\<close> has run.
\<close>

record scoped =
  self_attributes :: attributes
  self_start_time :: "real option"

record HistrogramTimer = scoped +
  self_duration_histogram :: instrument
  self_error_counter :: instrument

record SpanTime = scoped +
  self_name :: string

definition HistrogramTimer_init ::
  "instrument \<Rightarrow> instrument \<Rightarrow> attributes option \<Rightarrow> HistrogramTimer" where
  "HistrogramTimer_init h c a =
     \<lparr>self_attributes = or_empty a, self_start_time = None,
      self_duration_histogram = h, self_error_counter = c\<rparr>"

definition HistrogramTimer_enter :: "HistrogramTimer \<Rightarrow> world \<Rightarrow> HistrogramTimer" where
  "HistrogramTimer_enter self w = self\<lparr>self_start_time := Some (clock w)\<rparr>"

text \<open>
  \<^verbatim>\<open>HistrogramTimer.__exit__\<close>. The three exception arguments are one \<open>exn option\<close>.
  The last line of the source names the module's \<^verbatim>\<open>duration_histogram\<close>, not
  \<^verbatim>\<open>self.duration_histogram\<close>.
\<close>

definition HistrogramTimer_exit ::
  "HistrogramTimer \<Rightarrow> exn option \<Rightarrow> real \<Rightarrow> world \<Rightarrow> pyval result" where
  "HistrogramTimer_exit self exc rnd w =
     (case self_start_time self of
        None \<Rightarrow> (Inl (AttributeError ''start_time''), w)
      | Some t0 \<Rightarrow>
          let duration_ms = (clock w - t0) * 1000 in
          (case simulated_error rnd of
             Inr _ \<Rightarrow>
               (Inr PyNone, record_histogram duration_histogram duration_ms (self_attributes self) w)
           | Inl e \<Rightarrow>
               if is_Exception e then
                 (Inr PyNone,
                  record_histogram duration_histogram duration_ms (self_attributes self)
                    (logging_error ''transaction failed''
                      (add_counter (self_error_counter self) 1 (self_attributes self) w)))
               else (Inl e, w)))"

definition SpanTime_init :: "string \<Rightarrow> attributes option \<Rightarrow> SpanTime" where
  "SpanTime_init n a = \<lparr>self_attributes = or_empty a, self_start_time = None, self_name = n\<rparr>"

definition SpanTime_enter :: "SpanTime \<Rightarrow> world \<Rightarrow> SpanTime" where
  "SpanTime_enter self w = self\<lparr>self_start_time := Some (clock w)\<rparr>"

text \<open>
  \<^verbatim>\<open>SpanTime.__exit__\<close>. The span is opened by the inner \<^verbatim>\<open>with\<close> and ended when that
  block is left, on each of its paths.
\<close>

definition SpanTime_exit :: "SpanTime \<Rightarrow> exn option \<Rightarrow> real \<Rightarrow> world \<Rightarrow> pyval result" where
  "SpanTime_exit self exc rnd w =
     (case self_start_time self of
        None \<Rightarrow> (Inl (AttributeError ''start_time''), w)
      | Some t0 \<Rightarrow>
          let duration_ms = (clock w - t0) * 1000;
              sp = start_as_current_span (self_name self) w in
          (case simulated_error rnd of
             Inr _ \<Rightarrow>
               (Inr PyNone,
                end_span (set_status StatusOK (set_attribute ''duration'' (AFloat duration_ms) sp)) w)
           | Inl e \<Rightarrow>
               if is_Exception e then
                 (Inr PyNone,
                  end_span (set_status StatusERROR (record_exception e sp))
                    (logging_error ''failed transaction'' w))
               else (Inl e, end_span sp w)))"

subsection \<open>The \<^verbatim>\<open>with\<close> statement around a body\<close>

text \<open>
  Python's rule: \<^verbatim>\<open>__exit__\<close> is called on every way out of the body; an exception of
  the body is swallowed only when \<^verbatim>\<open>__exit__\<close> returns a truthy value, and an exception
  raised by \<^verbatim>\<open>__exit__\<close> replaces it.
\<close>

definition exc_info :: "exn + unit \<Rightarrow> exn option" where
  "exc_info r = (case r of Inl e \<Rightarrow> Some e | Inr _ \<Rightarrow> None)"

definition after_exit :: "exn + unit \<Rightarrow> pyval result \<Rightarrow> unit result" where
  "after_exit r x =
     (case fst x of
        Inl e' \<Rightarrow> (Inl e', snd x)
      | Inr v \<Rightarrow>
          (case r of
             Inl e \<Rightarrow> if truthy v then (Inr (), snd x) else (Inl e, snd x)
           | Inr _ \<Rightarrow> (Inr (), snd x)))"

definition with_HistrogramTimer ::
  "instrument \<Rightarrow> instrument \<Rightarrow> attributes option \<Rightarrow> (world \<Rightarrow> unit result) \<Rightarrow> real \<Rightarrow> world
     \<Rightarrow> unit result" where
  "with_HistrogramTimer h c a body rnd w =
     (let self = HistrogramTimer_enter (HistrogramTimer_init h c a) w;
          b = body w
      in after_exit (fst b) (HistrogramTimer_exit self (exc_info (fst b)) rnd (snd b)))"

definition with_SpanTime ::
  "string \<Rightarrow> attributes option \<Rightarrow> (world \<Rightarrow> unit result) \<Rightarrow> real \<Rightarrow> world \<Rightarrow> unit result" where
  "with_SpanTime n a body rnd w =
     (let self = SpanTime_enter (SpanTime_init n a) w;
          b = body w
      in after_exit (fst b) (SpanTime_exit self (exc_info (fst b)) rnd (snd b)))"

subsection \<open>The exporters\<close>

text \<open>
  The collector address as \<^verbatim>\<open>urlparse\<close> splits it: the scheme, in lower case, and the
  network location.
\<close>

record endpoint =
  ep_scheme :: string
  ep_netloc :: string

text \<open>
  The configuration surface the specification lists, as the process environment holds it:
  the endpoint and the insecure flag may each be unset. Neither module reads any of it;
  the endpoint and the flag are read by the exporter's constructor.
\<close>

record config =
  cfg_endpoint :: "endpoint option"
  cfg_insecure :: "bool option"
  cfg_flush_interval :: real
  cfg_max_batch_size :: nat
  cfg_export_timeout :: real
  cfg_error_injection_rate :: real

text \<open>The exporter once built: where it sends, and over which kind of channel.\<close>

record exporter =
  exp_endpoint :: endpoint
  exp_insecure :: bool

definition default_endpoint :: endpoint where
  "default_endpoint = \<lparr>ep_scheme = ''http'', ep_netloc = ''localhost:4317''\<rparr>"

text \<open>
  The constructor of the OTLP gRPC exporters, which belongs to the OpenTelemetry library
  and not to the samples, called as the samples call it, with no \<^verbatim>\<open>endpoint\<close> argument.
  The endpoint is the environment's, or \<^verbatim>\<open>http://localhost:4317\<close>. An \<^verbatim>\<open>https\<close>
  endpoint forces a secure channel whatever \<^verbatim>\<open>insecure\<close> says. Otherwise the
  \<^verbatim>\<open>insecure\<close> argument decides when it is given, and only when it is \<^verbatim>\<open>None\<close> does the
  environment's flag decide, or the scheme when the flag is unset too.
\<close>

definition OTLPExporter_init :: "bool option \<Rightarrow> config \<Rightarrow> exporter" where
  "OTLPExporter_init insecure env =
     (let ep = (case cfg_endpoint env of None \<Rightarrow> default_endpoint | Some e \<Rightarrow> e);
          forced = (if ep_scheme ep = ''https'' then Some False else insecure);
          ins = (case forced of
                   Some b \<Rightarrow> b
                 | None \<Rightarrow>
                     (case cfg_insecure env of
                        Some b \<Rightarrow> b
                      | None \<Rightarrow> ep_scheme ep = ''http''))
      in \<lparr>exp_endpoint = ep, exp_insecure = ins\<rparr>)"

text \<open>\<^verbatim>\<open>exporter = OTLPMetricExporter(insecure=True)\<close>, run in an environment \<open>env\<close>.\<close>

definition metric_exporter :: "config \<Rightarrow> exporter" where
  "metric_exporter env = OTLPExporter_init (Some True) env"

text \<open>\<^verbatim>\<open>exporter = OTLPSpanExporter(insecure=True)\<close>, run in an environment \<open>env\<close>.\<close>

definition span_exporter :: "config \<Rightarrow> exporter" where
  "span_exporter env = OTLPExporter_init (Some True) env"

subsection \<open>Concrete inputs\<close>

definition w0 :: world where
  "w0 = \<lparr>clock = 0, histogram_points = [], counter_points = [], log_records = [],
         finished_spans = []\<rparr>"

definition op_attributes :: attributes where
  "op_attributes = [(''op'', AStr ''data-process'')]"

text \<open>Work that runs for \<open>d\<close> seconds and then raises \<open>e\<close>.\<close>

definition failing_work :: "real \<Rightarrow> exn \<Rightarrow> world \<Rightarrow> unit result" where
  "failing_work d e w = (Inl e, w\<lparr>clock := clock w + d\<rparr>)"

text \<open>A histogram of the caller's own, other than the module's.\<close>

definition latency_histogram :: instrument where
  "latency_histogram =
     \<lparr>inst_name = ''latency'', inst_kind = Histogram, inst_unit = ''ms'',
      inst_description = ''Latency of a request''\<rparr>"

text \<open>
  A configuration that asks for TLS by its flag, \<^verbatim>\<open>insecure = false\<close>, on the endpoint
  \<^verbatim>\<open>http://collector.example:4317\<close>.
\<close>

definition tls_config :: config where
  "tls_config =
     \<lparr>cfg_endpoint = Some \<lparr>ep_scheme = ''http'', ep_netloc = ''collector.example:4317''\<rparr>,
      cfg_insecure = Some False, cfg_flush_interval = 5,
      cfg_max_batch_size = 512, cfg_export_timeout = 30, cfg_error_injection_rate = 0\<rparr>"

section \<open>What a release does\<close>

lemmas telemetry_defs =
  record_histogram_def add_counter_def logging_error_def start_as_current_span_def
  set_attribute_def set_status_def record_exception_def end_span_def

lemma HistrogramTimer_exit_started:
  "self_start_time self = Some t \<Longrightarrow>
   HistrogramTimer_exit self exc rnd w =
     (Inr PyNone,
      record_histogram duration_histogram ((clock w - t) * 1000) (self_attributes self)
        (if rnd < 5 / 100
         then logging_error ''transaction failed''
                (add_counter (self_error_counter self) 1 (self_attributes self) w)
         else w))"
  by (simp add: HistrogramTimer_exit_def simulated_error_def)

lemma SpanTime_exit_started:
  "self_start_time self = Some t \<Longrightarrow>
   SpanTime_exit self exc rnd w =
     (Inr PyNone,
      if rnd < 5 / 100
      then end_span (set_status StatusERROR
                      (record_exception (Exception ''simulated error'')
                        (start_as_current_span (self_name self) w)))
             (logging_error ''failed transaction'' w)
      else end_span (set_status StatusOK
                      (set_attribute ''duration'' (AFloat ((clock w - t) * 1000))
                        (start_as_current_span (self_name self) w))) w)"
  by (simp add: SpanTime_exit_def simulated_error_def)

lemma HistrogramTimer_enter_fields [simp]:
  "self_start_time (HistrogramTimer_enter self w) = Some (clock w)"
  "self_attributes (HistrogramTimer_enter self w) = self_attributes self"
  "self_error_counter (HistrogramTimer_enter self w) = self_error_counter self"
  "self_duration_histogram (HistrogramTimer_enter self w) = self_duration_histogram self"
  by (simp_all add: HistrogramTimer_enter_def)

lemma SpanTime_enter_fields [simp]:
  "self_start_time (SpanTime_enter self w) = Some (clock w)"
  "self_attributes (SpanTime_enter self w) = self_attributes self"
  "self_name (SpanTime_enter self w) = self_name self"
  by (simp_all add: SpanTime_enter_def)

lemma HistrogramTimer_exit_entered:
  "HistrogramTimer_exit (HistrogramTimer_enter self wa) exc rnd w =
     (Inr PyNone,
      record_histogram duration_histogram ((clock w - clock wa) * 1000) (self_attributes self)
        (if rnd < 5 / 100
         then logging_error ''transaction failed''
                (add_counter (self_error_counter self) 1 (self_attributes self) w)
         else w))"
  by (simp add: HistrogramTimer_exit_started [where t = "clock wa"])

lemma SpanTime_exit_entered:
  "SpanTime_exit (SpanTime_enter self wa) exc rnd w =
     (Inr PyNone,
      if rnd < 5 / 100
      then end_span (set_status StatusERROR
                      (record_exception (Exception ''simulated error'')
                        (start_as_current_span (self_name self) w)))
             (logging_error ''failed transaction'' w)
      else end_span (set_status StatusOK
                      (set_attribute ''duration'' (AFloat ((clock w - clock wa) * 1000))
                        (start_as_current_span (self_name self) w))) w)"
  by (simp add: SpanTime_exit_started [where t = "clock wa"])

lemma with_HistrogramTimer_world:
  "snd (with_HistrogramTimer h c a body rnd w) =
     record_histogram duration_histogram ((clock (snd (body w)) - clock w) * 1000) (or_empty a)
       (if rnd < 5 / 100
        then logging_error ''transaction failed'' (add_counter c 1 (or_empty a) (snd (body w)))
        else snd (body w))"
  by (simp add: with_HistrogramTimer_def after_exit_def Let_def HistrogramTimer_init_def
      HistrogramTimer_exit_entered split: sum.splits)

lemma with_SpanTime_world:
  "snd (with_SpanTime n a body rnd w) =
     (if rnd < 5 / 100
      then end_span (set_status StatusERROR
                      (record_exception (Exception ''simulated error'')
                        (start_as_current_span n (snd (body w)))))
             (logging_error ''failed transaction'' (snd (body w)))
      else end_span (set_status StatusOK
                      (set_attribute ''duration'' (AFloat ((clock (snd (body w)) - clock w) * 1000))
                        (start_as_current_span n (snd (body w))))) (snd (body w)))"
  by (simp add: with_SpanTime_def after_exit_def Let_def SpanTime_init_def
      SpanTime_exit_entered split: sum.splits)

lemma with_HistrogramTimer_result:
  "fst (with_HistrogramTimer h c a body rnd w) = fst (body w)"
  by (simp add: with_HistrogramTimer_def after_exit_def Let_def HistrogramTimer_init_def
      HistrogramTimer_exit_entered split: sum.splits)

lemma with_SpanTime_result:
  "fst (with_SpanTime n a body rnd w) = fst (body w)"
  by (simp add: with_SpanTime_def after_exit_def Let_def SpanTime_init_def
      SpanTime_exit_entered split: sum.splits)

section \<open>The claims\<close>

subsection \<open>C1: records produced by one scope\<close>

text \<open>
  C1, as stated, fails in span mode: a \<^verbatim>\<open>SpanTime\<close> block whose draw is \<open>0.01\<close> ends with
  status error and increments no error counter, \<^verbatim>\<open>SpanTime\<close> having none.
\<close>

theorem span_error_makes_no_counter_increment:
  "span_status (last (finished_spans (snd (with_SpanTime ''data-process'' None (sleep 1) (1 / 100) w0)))) = StatusERROR
   \<and> length (counter_points (snd (with_SpanTime ''data-process'' None (sleep 1) (1 / 100) w0))) \<noteq> 1"
  by (simp add: with_SpanTime_world telemetry_defs sleep_def w0_def)

text \<open>
  C1, amended: every completed \<^verbatim>\<open>with HistrogramTimer(...)\<close> block adds exactly one point
  to the histogram records and, exactly when the draw is below \<open>0.05\<close>, exactly one
  increment of 1 to the error counter it was given, and no span; every completed
  \<^verbatim>\<open>with SpanTime(...)\<close> block adds exactly one finished span and nothing to any counter
  or histogram. This holds whatever the body does and however it ends.
\<close>

theorem one_record_per_scope:
  "(\<exists>p. histogram_points (snd (with_HistrogramTimer h c a body rnd w)) = histogram_points (snd (body w)) @ [p])
   \<and> counter_points (snd (with_HistrogramTimer h c a body rnd w)) =
       counter_points (snd (body w)) @ (if rnd < 5 / 100 then [(c, 1, or_empty a)] else [])
   \<and> finished_spans (snd (with_HistrogramTimer h c a body rnd w)) = finished_spans (snd (body w))
   \<and> (\<exists>s. finished_spans (snd (with_SpanTime n sa body rnd w)) = finished_spans (snd (body w)) @ [s])
   \<and> counter_points (snd (with_SpanTime n sa body rnd w)) = counter_points (snd (body w))
   \<and> histogram_points (snd (with_SpanTime n sa body rnd w)) = histogram_points (snd (body w))"
  by (simp add: with_HistrogramTimer_world with_SpanTime_world telemetry_defs)

subsection \<open>C2: the duration on the error path\<close>

text \<open>
  C2 at a draw of \<open>0.01\<close>, after one second of work: the span of \<^verbatim>\<open>SpanTime\<close> ends with
  no attribute at all, so without \<^verbatim>\<open>duration\<close>, while the same block with a draw of
  \<open>0.5\<close> carries \<^verbatim>\<open>duration = 1000\<close>, and \<^verbatim>\<open>HistrogramTimer\<close> records the 1000 ms on
  its error path too.
\<close>

theorem span_error_path_skips_duration:
  "span_status (last (finished_spans (snd (with_SpanTime ''data-process'' None (sleep 1) (1 / 100) w0)))) = StatusERROR
   \<and> span_attributes (last (finished_spans (snd (with_SpanTime ''data-process'' None (sleep 1) (1 / 100) w0)))) = []
   \<and> span_attributes (last (finished_spans (snd (with_SpanTime ''data-process'' None (sleep 1) (1 / 2) w0)))) =
       [(''duration'', AFloat 1000)]
   \<and> histogram_points (snd (with_HistrogramTimer duration_histogram error_counter (Some op_attributes) (sleep 1) (1 / 100) w0)) =
       [(duration_histogram, 1000, op_attributes)]"
  by (simp add: with_SpanTime_world with_HistrogramTimer_world telemetry_defs sleep_def w0_def
      or_empty_def op_attributes_def)

subsection \<open>C3: a release called with an exception\<close>

text \<open>
  C3, as stated, fails: work that raises \<^verbatim>\<open>Exception('boom')\<close> after one second, with a
  draw of \<open>0.5\<close>, leaves the error counter untouched in metric mode and the span with
  status ok in span mode.
\<close>

theorem raised_fault_classified_ok:
  "counter_points (snd (with_HistrogramTimer duration_histogram error_counter (Some op_attributes) (failing_work 1 (Exception ''boom'')) (1 / 2) w0)) = []
   \<and> span_status (last (finished_spans
        (snd (with_SpanTime ''data-process'' None (failing_work 1 (Exception ''boom'')) (1 / 2) w0)))) = StatusOK"
  by (simp add: with_SpanTime_world with_HistrogramTimer_world telemetry_defs failing_work_def
      w0_def)

text \<open>
  C3, amended: a release called with an exception does what it does without one. When the
  work raises, the release still runs, records one histogram point or one span, and
  classifies the outcome from the draw alone: error exactly when the draw is below
  \<open>0.05\<close>, ok otherwise.
\<close>

theorem release_ignores_exception:
  "HistrogramTimer_exit self exc rnd w = HistrogramTimer_exit self None rnd w
   \<and> SpanTime_exit sself exc rnd w = SpanTime_exit sself None rnd w
   \<and> (\<exists>p. histogram_points (snd (with_HistrogramTimer h c a (failing_work d e) rnd w)) =
          histogram_points w @ [p])
   \<and> counter_points (snd (with_HistrogramTimer h c a (failing_work d e) rnd w)) =
       counter_points w @ (if rnd < 5 / 100 then [(c, 1, or_empty a)] else [])
   \<and> (\<exists>s. finished_spans (snd (with_SpanTime n sa (failing_work d e) rnd w)) =
          finished_spans w @ [s]
        \<and> span_status s = (if rnd < 5 / 100 then StatusERROR else StatusOK))"
  by (simp add: HistrogramTimer_exit_def SpanTime_exit_def with_HistrogramTimer_world
      with_SpanTime_world telemetry_defs failing_work_def)

subsection \<open>C4: when the span starts\<close>

text \<open>
  C4, as stated, fails: acquired at time 0 around one second of work, the scope keeps 0 as
  its own start time, and the span it produces starts and ends at time 1.
\<close>

theorem span_of_one_second_of_work:
  "self_start_time (SpanTime_enter (SpanTime_init ''data-process'' None) w0) = Some 0
   \<and> span_start (last (finished_spans (snd (with_SpanTime ''data-process'' None (sleep 1) (1 / 2) w0)))) = 1
   \<and> span_end (last (finished_spans (snd (with_SpanTime ''data-process'' None (sleep 1) (1 / 2) w0)))) = Some 1"
  by (simp add: with_SpanTime_world telemetry_defs sleep_def w0_def)

text \<open>
  C4, amended: acquisition stores the clock reading on the \<^verbatim>\<open>SpanTime\<close> object and
  creates no span; the span is started and ended during the release, after the work, so
  both its start and its end time are readings taken when the work is over.
\<close>

theorem span_opened_at_release:
  "self_start_time (SpanTime_enter (SpanTime_init n sa) w) = Some (clock w)
   \<and> (\<exists>s. finished_spans (snd (with_SpanTime n sa body rnd w)) = finished_spans (snd (body w)) @ [s]
        \<and> span_start s = clock (snd (body w)) \<and> span_end s = Some (clock (snd (body w))))"
  by (simp add: with_SpanTime_world telemetry_defs)

subsection \<open>C5: which histogram receives the duration\<close>

text \<open>
  C5 at a timer built on the caller's own \<open>latency_histogram\<close>: the timer stores that
  handle, and the one second of work is recorded into the module's
  \<open>duration_histogram\<close>, a different instrument, with the attributes given.
\<close>

theorem record_goes_to_module_histogram:
  "self_duration_histogram
     (HistrogramTimer_enter
       (HistrogramTimer_init latency_histogram error_counter (Some op_attributes)) w0) =
     latency_histogram
   \<and> histogram_points
       (snd (with_HistrogramTimer latency_histogram error_counter (Some op_attributes)
              (sleep 1) (1 / 2) w0)) =
       [(duration_histogram, 1000, op_attributes)]
   \<and> duration_histogram \<noteq> latency_histogram"
  by (simp add: with_HistrogramTimer_world telemetry_defs sleep_def w0_def or_empty_def
      op_attributes_def HistrogramTimer_init_def duration_histogram_def latency_histogram_def)

subsection \<open>C6: what an error release emits\<close>

text \<open>
  C6: when the draw is below \<open>0.05\<close>, the release of an acquired \<^verbatim>\<open>HistrogramTimer\<close>
  adds exactly one increment of 1 to its own error counter with its own attributes and
  exactly one log record of level error; the release of an acquired \<^verbatim>\<open>SpanTime\<close> produces
  one span with status error carrying the exception, and exactly one log record of level
  error.
\<close>

theorem error_release_actions:
  assumes "rnd < 5 / 100"
  shows "counter_points (snd (HistrogramTimer_exit (HistrogramTimer_enter self wa) exc rnd w)) =
           counter_points w @ [(self_error_counter self, 1, self_attributes self)]
   \<and> log_records (snd (HistrogramTimer_exit (HistrogramTimer_enter self wa) exc rnd w)) =
           log_records w @ [(LogERROR, ''transaction failed'')]
   \<and> finished_spans (snd (SpanTime_exit (SpanTime_enter sself wa) exc rnd w)) =
           finished_spans w @
             [\<lparr>span_name = self_name sself, span_start = clock w, span_end = Some (clock w),
               span_status = StatusERROR, span_attributes = [],
               span_exceptions = [Exception ''simulated error'']\<rparr>]
   \<and> log_records (snd (SpanTime_exit (SpanTime_enter sself wa) exc rnd w)) =
           log_records w @ [(LogERROR, ''failed transaction'')]"
  using assms by (simp add: HistrogramTimer_exit_entered SpanTime_exit_entered telemetry_defs)

text \<open>The same at a draw of \<open>0.01\<close>, released one second after acquisition.\<close>

theorem error_release_actions_witness:
  "(1 / 100 :: real) < 5 / 100
   \<and> counter_points (snd (HistrogramTimer_exit
        (HistrogramTimer_enter
          (HistrogramTimer_init duration_histogram error_counter (Some op_attributes)) w0)
        None (1 / 100) (snd (sleep 1 w0)))) = [(error_counter, 1, op_attributes)]
   \<and> log_records (snd (HistrogramTimer_exit
        (HistrogramTimer_enter
          (HistrogramTimer_init duration_histogram error_counter (Some op_attributes)) w0)
        None (1 / 100) (snd (sleep 1 w0)))) = [(LogERROR, ''transaction failed'')]
   \<and> finished_spans (snd (SpanTime_exit (SpanTime_enter (SpanTime_init ''data-process'' None) w0)
        None (1 / 100) (snd (sleep 1 w0)))) =
        [\<lparr>span_name = ''data-process'', span_start = 1, span_end = Some 1,
          span_status = StatusERROR, span_attributes = [],
          span_exceptions = [Exception ''simulated error'']\<rparr>]
   \<and> log_records (snd (SpanTime_exit (SpanTime_enter (SpanTime_init ''data-process'' None) w0)
        None (1 / 100) (snd (sleep 1 w0)))) = [(LogERROR, ''failed transaction'')]"
  using error_release_actions [where rnd = "1 / 100" and wa = w0 and exc = None
      and w = "snd (sleep 1 w0)" and sself = "SpanTime_init ''data-process'' None"
      and self = "HistrogramTimer_init duration_histogram error_counter (Some op_attributes)"]
  by (simp add: HistrogramTimer_init_def SpanTime_init_def or_empty_def op_attributes_def
      sleep_def w0_def)

subsection \<open>C7: the injection threshold\<close>

text \<open>
  C7: the release of an acquired scope takes its error path exactly when the draw is below
  \<open>0.05\<close>. In metric mode the error counter and the log grow exactly then; in span mode
  the span ends with status error exactly then and with status ok otherwise.
\<close>

theorem injection_threshold:
  "(counter_points (snd (HistrogramTimer_exit (HistrogramTimer_enter self wa) exc rnd w))
       \<noteq> counter_points w) = (rnd < 5 / 100)
   \<and> (log_records (snd (HistrogramTimer_exit (HistrogramTimer_enter self wa) exc rnd w))
       \<noteq> log_records w) = (rnd < 5 / 100)
   \<and> span_status (last (finished_spans
        (snd (SpanTime_exit (SpanTime_enter sself wa) exc rnd w)))) =
       (if rnd < 5 / 100 then StatusERROR else StatusOK)
   \<and> (log_records (snd (SpanTime_exit (SpanTime_enter sself wa) exc rnd w))
       \<noteq> log_records w) = (rnd < 5 / 100)"
  by (simp add: HistrogramTimer_exit_entered SpanTime_exit_entered telemetry_defs)

subsection \<open>C8: the injected fault stays inside the release\<close>

text \<open>
  C8: no release, of either class and in any state, raises the simulated exception; and a
  block whose body completes normally completes normally, whatever the draw.
\<close>

theorem injected_fault_absorbed:
  assumes "fst (body w) = Inr ()"
  shows "fst (HistrogramTimer_exit self exc rnd w') \<noteq> Inl (Exception ''simulated error'')
   \<and> fst (SpanTime_exit sself exc rnd w') \<noteq> Inl (Exception ''simulated error'')
   \<and> fst (with_HistrogramTimer h c a body rnd w) = Inr ()
   \<and> fst (with_SpanTime n sa body rnd w) = Inr ()"
  using assms
  by (simp add: with_HistrogramTimer_result with_SpanTime_result HistrogramTimer_exit_def
      SpanTime_exit_def simulated_error_def split: option.splits)

text \<open>The same for one second of sleep and a draw of \<open>0.01\<close>, which injects the fault.\<close>

theorem injected_fault_absorbed_witness:
  "fst (sleep 1 w0) = Inr ()
   \<and> fst (HistrogramTimer_exit
        (HistrogramTimer_enter
          (HistrogramTimer_init duration_histogram error_counter (Some op_attributes)) w0)
        None (1 / 100) (snd (sleep 1 w0))) \<noteq> Inl (Exception ''simulated error'')
   \<and> fst (SpanTime_exit (SpanTime_enter (SpanTime_init ''data-process'' None) w0)
        None (1 / 100) (snd (sleep 1 w0))) \<noteq> Inl (Exception ''simulated error'')
   \<and> fst (with_HistrogramTimer duration_histogram error_counter (Some op_attributes) (sleep 1) (1 / 100) w0) = Inr ()
   \<and> fst (with_SpanTime ''data-process'' None (sleep 1) (1 / 100) w0) = Inr ()"
  using injected_fault_absorbed [where body = "sleep 1" and w = w0 and rnd = "1 / 100"
      and exc = None and w' = "snd (sleep 1 w0)" and h = duration_histogram
      and c = error_counter and a = "Some op_attributes" and n = "''data-process''"
      and sa = None and sself = "SpanTime_enter (SpanTime_init ''data-process'' None) w0"
      and self = "HistrogramTimer_enter
        (HistrogramTimer_init duration_histogram error_counter (Some op_attributes)) w0"]
  by (simp add: sleep_def)

subsection \<open>C9: the exporter's transport security\<close>

text \<open>
  C9, as stated, fails: under a configuration whose flag asks for TLS, on an endpoint that
  is not \<^verbatim>\<open>https\<close>, both modules build an exporter on a plaintext channel.
\<close>

theorem exporter_ignores_tls_config:
  "cfg_insecure tls_config = Some False
   \<and> exp_insecure (metric_exporter tls_config)
   \<and> exp_insecure (span_exporter tls_config)"
  by (simp add: metric_exporter_def span_exporter_def OTLPExporter_init_def tls_config_def)

text \<open>
  C9, amended: the configured insecure flag has no effect on the exporter of either
  module, which passes the literal \<^verbatim>\<open>insecure=True\<close>. The exporter is plaintext for every
  configuration whose endpoint is not an \<^verbatim>\<open>https\<close> URL, and that includes an unset
  endpoint; only an \<^verbatim>\<open>https\<close> endpoint makes it use TLS.
\<close>

theorem exporter_security_ignores_flag:
  "metric_exporter (env\<lparr>cfg_insecure := flag\<rparr>) = metric_exporter env
   \<and> span_exporter (env\<lparr>cfg_insecure := flag\<rparr>) = span_exporter env
   \<and> exp_insecure (metric_exporter env) =
       (ep_scheme (case cfg_endpoint env of None \<Rightarrow> default_endpoint | Some e \<Rightarrow> e)
          \<noteq> ''https'')
   \<and> exp_insecure (span_exporter env) =
       (ep_scheme (case cfg_endpoint env of None \<Rightarrow> default_endpoint | Some e \<Rightarrow> e)
          \<noteq> ''https'')"
  by (simp add: metric_exporter_def span_exporter_def OTLPExporter_init_def Let_def)

subsection \<open>C10: the release never swallows an exception\<close>

text \<open>
  C10: the release of an acquired scope returns \<^verbatim>\<open>None\<close>, which is falsy; so a block
  whose body raises \<open>e\<close> raises \<open>e\<close>, and it does so after the release has recorded its
  histogram point or its span.
\<close>

theorem exit_never_suppresses:
  assumes "fst (body w) = Inl e"
  shows "fst (HistrogramTimer_exit (HistrogramTimer_enter self wa) exc rnd w') = Inr PyNone
   \<and> fst (SpanTime_exit (SpanTime_enter sself wa) exc rnd w') = Inr PyNone
   \<and> \<not> truthy PyNone
   \<and> fst (with_HistrogramTimer h c a body rnd w) = Inl e
   \<and> (\<exists>p. histogram_points (snd (with_HistrogramTimer h c a body rnd w)) = histogram_points (snd (body w)) @ [p])
   \<and> fst (with_SpanTime n sa body rnd w) = Inl e
   \<and> (\<exists>s. finished_spans (snd (with_SpanTime n sa body rnd w)) = finished_spans (snd (body w)) @ [s])"
  using assms
  by (simp add: with_HistrogramTimer_result with_SpanTime_result HistrogramTimer_exit_entered
      SpanTime_exit_entered with_HistrogramTimer_world with_SpanTime_world telemetry_defs)

text \<open>The same for work interrupted from the keyboard after one second.\<close>

theorem exit_never_suppresses_witness:
  "fst (failing_work 1 (BaseException ''KeyboardInterrupt'') w0) =
     Inl (BaseException ''KeyboardInterrupt'')
   \<and> fst (with_HistrogramTimer duration_histogram error_counter (Some op_attributes) (failing_work 1 (BaseException ''KeyboardInterrupt'')) (1 / 100) w0) =
       Inl (BaseException ''KeyboardInterrupt'')
   \<and> fst (with_SpanTime ''data-process'' None (failing_work 1 (BaseException ''KeyboardInterrupt'')) (1 / 100) w0) =
       Inl (BaseException ''KeyboardInterrupt'')"
  using exit_never_suppresses [where body = "failing_work 1 (BaseException ''KeyboardInterrupt'')"
      and w = w0 and e = "BaseException ''KeyboardInterrupt''" and rnd = "1 / 100"
      and h = duration_histogram and c = error_counter and a = "Some op_attributes"
      and n = "''data-process''" and sa = None]
  by (simp add: failing_work_def)

end
